theory Spec2Isabelle
  imports Main
begin

section \<open>JavaScript values, objects and the heap\<close>

text \<open>
  The module \<^verbatim>\<open>store/displayPreferencesApi.ts\<close> works on plain JavaScript objects.
  Numbers are IEEE doubles in the source; the model keeps the integer-valued ones and
  the three non-finite ones, which is all the functions below ever build themselves.
  What the engine computes on other numerals (\<^verbatim>\<open>Number\<close> and \<^verbatim>\<open>JSON.parse\<close> on a
  string) is a parameter of the model, the record \<open>host\<close>.
\<close>

type_synonym addr = nat

datatype jsnum = Fin int | NaN | PosInf | NegInf

datatype jsval =
    JUndefined
  | JNull
  | JBool bool
  | JNum jsnum
  | JStr string
  | JArr "jsval list"
  | JBoxed jsval
  | JObj "(string \<times> jsval) list"
  | JRef addr

text \<open>
  \<open>JObj\<close> is an object that nothing mutates after its creation (a literal, the result
  of \<^verbatim>\<open>Object(null)\<close>); \<open>JRef\<close> points to an object of the heap, which the code
  mutates in place. \<open>JBoxed v\<close> is the wrapper object \<^verbatim>\<open>Object(v)\<close> of a primitive.
  An object is the list of its own enumerable properties, in insertion order.
\<close>

type_synonym obj = "(string \<times> jsval) list"

type_synonym heap = "obj list"

record host =
  Number_of_string :: "string \<Rightarrow> jsnum"
  JSON_parse :: "string \<Rightarrow> jsval option"

datatype error = TypeError | StatusError string | NetworkError

subsection \<open>Own properties\<close>

definition get_own :: "obj \<Rightarrow> string \<Rightarrow> jsval option" where
  "get_own props k = map_of props k"

fun set_prop :: "obj \<Rightarrow> string \<Rightarrow> jsval \<Rightarrow> obj" where
  "set_prop [] k v = [(k, v)]"
| "set_prop ((k', v') # ps) k v =
     (if k' = k then (k, v) # ps else (k', v') # set_prop ps k v)"

definition delete_prop :: "obj \<Rightarrow> string \<Rightarrow> obj" where
  "delete_prop props k = filter (\<lambda>(k', v). k' \<noteq> k) props"

definition Object_keys :: "obj \<Rightarrow> string list" where
  "Object_keys props = map fst props"

definition Object_entries :: "obj \<Rightarrow> (string \<times> jsval) list" where
  "Object_entries props = props"

text \<open>\<^verbatim>\<open>Object.assign(target, source)\<close>: every own enumerable property of the source
  is set on the target, in order.\<close>

definition Object_assign :: "obj \<Rightarrow> obj \<Rightarrow> obj" where
  "Object_assign target source = fold (\<lambda>(k, v) t. set_prop t k v) source target"

subsection \<open>The heap\<close>

definition heap_get :: "heap \<Rightarrow> addr \<Rightarrow> obj option" where
  "heap_get h a = (if a < length h then Some (h ! a) else None)"

definition heap_set :: "heap \<Rightarrow> addr \<Rightarrow> obj \<Rightarrow> heap" where
  "heap_set h a ob = h[a := ob]"

definition alloc :: "heap \<Rightarrow> obj \<Rightarrow> addr \<times> heap" where
  "alloc h ob = (length h, h @ [ob])"

subsection \<open>Properties inherited from \<^verbatim>\<open>Object.prototype\<close>\<close>

text \<open>
  \<^verbatim>\<open>settingState()[key]\<close> and \<^verbatim>\<open>key in settingState()\<close> follow the prototype chain
  of the object. An object literal inherits from \<^verbatim>\<open>Object.prototype\<close>, whose
  properties are the methods below and the accessor \<^verbatim>\<open>__proto__\<close>.
\<close>

definition prototype_methods :: "string list" where
  "prototype_methods =
     [''constructor'', ''__defineGetter__'', ''__defineSetter__'', ''hasOwnProperty'',
      ''__lookupGetter__'', ''__lookupSetter__'', ''isPrototypeOf'',
      ''propertyIsEnumerable'', ''toString'', ''valueOf'', ''toLocaleString'']"

datatype propval = Value jsval | NativeFunction

definition get_prop :: "obj \<Rightarrow> string \<Rightarrow> propval" where
  "get_prop props k =
     (case get_own props k of
        Some v \<Rightarrow> Value v
      | None \<Rightarrow>
          if k \<in> set prototype_methods then NativeFunction
          else if k = ''__proto__'' then Value (JObj [])
          else Value JUndefined)"

definition has_prop :: "string \<Rightarrow> obj \<Rightarrow> bool" where
  "has_prop k props \<longleftrightarrow>
     k \<in> set (Object_keys props) \<or> k \<in> set prototype_methods \<or> k = ''__proto__''"

datatype jstype = TUndefined | TObject | TBoolean | TNumber | TString | TFunction

fun typeof :: "propval \<Rightarrow> jstype" where
  "typeof NativeFunction = TFunction"
| "typeof (Value JUndefined) = TUndefined"
| "typeof (Value (JBool b)) = TBoolean"
| "typeof (Value (JNum n)) = TNumber"
| "typeof (Value (JStr s)) = TString"
| "typeof (Value v) = TObject"

fun Array_isArray :: "propval \<Rightarrow> bool" where
  "Array_isArray (Value (JArr xs)) = True"
| "Array_isArray p = False"

section \<open>Built-in conversions\<close>

text \<open>\<^verbatim>\<open>Boolean(v)\<close>: a string is true as soon as it is not empty.\<close>

fun js_Boolean :: "jsval \<Rightarrow> bool" where
  "js_Boolean JUndefined = False"
| "js_Boolean JNull = False"
| "js_Boolean (JBool b) = b"
| "js_Boolean (JNum n) = (n \<noteq> Fin 0 \<and> n \<noteq> NaN)"
| "js_Boolean (JStr s) = (s \<noteq> [])"
| "js_Boolean v = True"

definition digit_char :: "nat \<Rightarrow> char" where
  "digit_char d = ''0123456789'' ! d"

function digits :: "nat \<Rightarrow> string" where
  "digits n = (if n < 10 then [digit_char n] else digits (n div 10) @ [digit_char (n mod 10)])"
  by pat_completeness auto
termination
  by (relation "measure id") auto

declare digits.simps [simp del]

text \<open>The decimal rendering of a number (integers of magnitude below \<open>10\<^sup>2\<^sup>1\<close> are
  written without exponent).\<close>

fun number_to_string :: "jsnum \<Rightarrow> string" where
  "number_to_string (Fin i) = (if i < 0 then CHR ''-'' # digits (nat (- i)) else digits (nat i))"
| "number_to_string NaN = ''NaN''"
| "number_to_string PosInf = ''Infinity''"
| "number_to_string NegInf = ''-Infinity''"

fun join :: "string \<Rightarrow> string list \<Rightarrow> string" where
  "join sep [] = []"
| "join sep [x] = x"
| "join sep (x # y # ys) = x @ sep @ join sep (y # ys)"

text \<open>\<^verbatim>\<open>String(v)\<close>, which is also \<^verbatim>\<open>v + ''\<close> on the values of the model. An array is
  joined with commas, its \<^verbatim>\<open>null\<close> and \<^verbatim>\<open>undefined\<close> elements left empty.\<close>

fun js_String :: "jsval \<Rightarrow> string" where
  "js_String JUndefined = ''undefined''"
| "js_String JNull = ''null''"
| "js_String (JBool b) = (if b then ''true'' else ''false'')"
| "js_String (JNum n) = number_to_string n"
| "js_String (JStr s) = s"
| "js_String (JArr xs) =
     join '','' (map (\<lambda>x. if x = JUndefined \<or> x = JNull then [] else js_String x) xs)"
| "js_String (JBoxed v) = js_String v"
| "js_String (JObj ps) = ''[object Object]''"
| "js_String (JRef a) = ''[object Object]''"

text \<open>\<^verbatim>\<open>Number(v)\<close>; an object is converted through its string.\<close>

fun js_Number :: "host \<Rightarrow> jsval \<Rightarrow> jsnum" where
  "js_Number hst JUndefined = NaN"
| "js_Number hst JNull = Fin 0"
| "js_Number hst (JBool b) = Fin (if b then 1 else 0)"
| "js_Number hst (JNum n) = n"
| "js_Number hst (JStr s) = Number_of_string hst s"
| "js_Number hst v = Number_of_string hst (js_String v)"

text \<open>\<^verbatim>\<open>Object(v)\<close>: an object is returned as it is, \<^verbatim>\<open>null\<close> and \<^verbatim>\<open>undefined\<close>
  give a new empty object, another primitive is wrapped.\<close>

fun js_Object :: "jsval \<Rightarrow> jsval" where
  "js_Object JUndefined = JObj []"
| "js_Object JNull = JObj []"
| "js_Object (JBool b) = JBoxed (JBool b)"
| "js_Object (JNum n) = JBoxed (JNum n)"
| "js_Object (JStr s) = JBoxed (JStr s)"
| "js_Object v = v"

text \<open>\<^verbatim>\<open>s.split(',')\<close>: the empty string gives one empty piece.\<close>

fun split_comma :: "string \<Rightarrow> string list" where
  "split_comma [] = [[]]"
| "split_comma (c # cs) =
     (if c = CHR '','' then [] # split_comma cs
      else (case split_comma cs of [] \<Rightarrow> [[c]] | w # ws \<Rightarrow> (c # w) # ws))"

subsection \<open>lodash \<^verbatim>\<open>toString\<close>\<close>

text \<open>
  \<^verbatim>\<open>toStr(value)\<close> is the empty string on \<^verbatim>\<open>null\<close> and \<^verbatim>\<open>undefined\<close>, and
  \<^verbatim>\<open>baseToString(value)\<close> otherwise: a string is itself, an array is the comma-joined
  \<^verbatim>\<open>baseToString\<close> of its elements, anything else is \<^verbatim>\<open>value + ''\<close>.
\<close>

fun baseToString :: "jsval \<Rightarrow> string" where
  "baseToString (JStr s) = s"
| "baseToString (JArr xs) = join '','' (map baseToString xs)"
| "baseToString v = js_String v"

definition toStr :: "jsval \<Rightarrow> string" where
  "toStr v = (if v = JUndefined \<or> v = JNull then [] else baseToString v)"

subsection \<open>The package \<^verbatim>\<open>destr\<close>\<close>

text \<open>
  \<^verbatim>\<open>destr(s)\<close> on a string: the words \<^verbatim>\<open>true\<close>, \<^verbatim>\<open>false\<close>, \<^verbatim>\<open>null\<close>, \<^verbatim>\<open>nan\<close>,
  \<^verbatim>\<open>infinity\<close> and \<^verbatim>\<open>undefined\<close> in any case are their values; a string that does
  not look like JSON (it neither starts with a quote, brace or bracket nor is a short
  numeral) is returned as it is; any other string goes to \<^verbatim>\<open>JSON.parse\<close>, and is
  returned as it is when the parser throws.
\<close>

definition lower_char :: "char \<Rightarrow> char" where
  "lower_char c =
     (case map_of (zip ''ABCDEFGHIJKLMNOPQRSTUVWXYZ'' ''abcdefghijklmnopqrstuvwxyz'') c of
        Some l \<Rightarrow> l
      | None \<Rightarrow> c)"

definition toLowerCase :: "string \<Rightarrow> string" where
  "toLowerCase s = map lower_char s"

definition is_digit :: "char \<Rightarrow> bool" where
  "is_digit c \<longleftrightarrow> c \<in> set ''0123456789''"

text \<open>The regular expression \<^verbatim>\<open>/^["{[]|^-?[0-9][0-9.]{0,14}$/\<close>.\<close>

definition short_numeral :: "string \<Rightarrow> bool" where
  "short_numeral s =
     (case s of
        [] \<Rightarrow> False
      | d # r \<Rightarrow> is_digit d \<and> length r \<le> 14 \<and> list_all (\<lambda>c. is_digit c \<or> c = CHR ''.'') r)"

definition JsonSigRx :: "string \<Rightarrow> bool" where
  "JsonSigRx s =
     (case s of
        [] \<Rightarrow> False
      | c # r \<Rightarrow>
          c = CHR 0x22 \<or> c = CHR ''{'' \<or> c = CHR ''['' \<or>
          (if c = CHR ''-'' then short_numeral r else short_numeral s))"

definition destr :: "host \<Rightarrow> string \<Rightarrow> jsval" where
  "destr hst val =
     (let lval = toLowerCase val in
      if lval = ''true'' then JBool True
      else if lval = ''false'' then JBool False
      else if lval = ''null'' then JNull
      else if lval = ''nan'' then JNum NaN
      else if lval = ''infinity'' then JNum PosInf
      else if lval = ''undefined'' then JUndefined
      else if \<not> JsonSigRx val then JStr val
      else (case JSON_parse hst val of Some v \<Rightarrow> v | None \<Rightarrow> JStr val))"

section \<open>Decoding: \<^verbatim>\<open>castResponse\<close>\<close>

text \<open>
  The value that one iteration of the loop of \<^verbatim>\<open>castResponse\<close> assigns to
  \<^verbatim>\<open>result.CustomPrefs[key]\<close>, from \<^verbatim>\<open>stateValue = settingState()[key]\<close>; \<open>None\<close>
  when no branch assigns. The test \<^verbatim>\<open>stateValue === undefined\<close> stands under
  \<^verbatim>\<open>typeof stateValue === 'object'\<close>, as in the source.
\<close>

definition cast_value :: "host \<Rightarrow> obj \<Rightarrow> string \<Rightarrow> jsval \<Rightarrow> jsval option" where
  "cast_value hst schema key val =
     (let stateValue = get_prop schema key in
      if typeof stateValue = TBoolean then Some (JBool (js_Boolean val))
      else if typeof stateValue = TNumber then Some (JNum (js_Number hst val))
      else if typeof stateValue = TObject then
        (if Array_isArray stateValue then
           Some (JArr (map (destr hst) (split_comma (js_String val))))
         else if stateValue = Value JNull then Some JNull
         else if stateValue = Value JUndefined then Some JUndefined
         else Some (js_Object val))
      else None)"

definition assign_prop :: "heap \<Rightarrow> addr \<Rightarrow> string \<Rightarrow> jsval \<Rightarrow> heap" where
  "assign_prop h p k v =
     (case heap_get h p of Some ob \<Rightarrow> heap_set h p (set_prop ob k v) | None \<Rightarrow> h)"

fun cast_loop :: "host \<Rightarrow> obj \<Rightarrow> addr \<Rightarrow> (string \<times> jsval) list \<Rightarrow> heap \<Rightarrow> heap" where
  "cast_loop hst schema p [] h = h"
| "cast_loop hst schema p ((key, val) # es) h =
     cast_loop hst schema p es
       (case cast_value hst schema key val of
          Some v \<Rightarrow> assign_prop h p key v
        | None \<Rightarrow> h)"

text \<open>
  \<^verbatim>\<open>castResponse(data)\<close>: \<^verbatim>\<open>result\<close> is \<^verbatim>\<open>data\<close> itself, and the loop writes into the
  object that \<^verbatim>\<open>data.CustomPrefs\<close> points to. \<^verbatim>\<open>Object.entries\<close> throws a
  \<^verbatim>\<open>TypeError\<close> on \<^verbatim>\<open>null\<close> and \<^verbatim>\<open>undefined\<close>, and so does reading a property of a
  missing \<^verbatim>\<open>data\<close>. The DTO type gives \<^verbatim>\<open>CustomPrefs\<close> an object, \<^verbatim>\<open>null\<close> or
  nothing; the model throws on any other value.
\<close>

definition castResponse :: "host \<Rightarrow> obj \<Rightarrow> heap \<Rightarrow> jsval \<Rightarrow> error + (heap \<times> jsval)" where
  "castResponse hst schema h data =
     (case data of
        JRef a \<Rightarrow>
          (case heap_get h a of
             None \<Rightarrow> Inl TypeError
           | Some d \<Rightarrow>
               (case get_own d ''CustomPrefs'' of
                  Some (JRef p) \<Rightarrow>
                    (case heap_get h p of
                       None \<Rightarrow> Inl TypeError
                     | Some prefs \<Rightarrow>
                         Inr (cast_loop hst schema p (Object_entries prefs) h, data))
                | _ \<Rightarrow> Inl TypeError))
      | _ \<Rightarrow> Inl TypeError)"

section \<open>The store module\<close>

record DisplayPreferencesApiState =
  syncing :: bool
  LastSync :: int
  LastSettingChange :: int

definition defaultState :: DisplayPreferencesApiState where
  "defaultState = \<lparr>syncing = False, LastSync = - 1, LastSettingChange = - 1\<rparr>"

text \<open>
  \<^verbatim>\<open>Object.assign(state, source)\<close> on the module state: a property of the source with
  the name of a field sets that field.
\<close>

fun assign_field :: "string \<times> jsval \<Rightarrow> DisplayPreferencesApiState \<Rightarrow> DisplayPreferencesApiState" where
  "assign_field (k, JBool b) st = (if k = ''syncing'' then st\<lparr>syncing := b\<rparr> else st)"
| "assign_field (k, JNum (Fin i)) st =
     (if k = ''LastSync'' then st\<lparr>LastSync := i\<rparr>
      else if k = ''LastSettingChange'' then st\<lparr>LastSettingChange := i\<rparr>
      else st)"
| "assign_field (k, v) st = st"

definition assign_state :: "DisplayPreferencesApiState \<Rightarrow> obj \<Rightarrow> DisplayPreferencesApiState" where
  "assign_state st source = fold assign_field source st"

text \<open>
  The source of \<^verbatim>\<open>RESET_STATE\<close> is \<^verbatim>\<open>Object.assign(state, defaultState)\<close>: its second
  argument is the arrow function \<^verbatim>\<open>defaultState\<close>, not the object it returns. The own
  properties of a function (\<^verbatim>\<open>length\<close>, \<^verbatim>\<open>name\<close>) are not enumerable.
\<close>

definition function_own_enumerable :: obj where
  "function_own_enumerable = []"

definition RESET_STATE :: "DisplayPreferencesApiState \<Rightarrow> DisplayPreferencesApiState" where
  "RESET_STATE st = assign_state st function_own_enumerable"

definition SYNCING_STARTED :: "DisplayPreferencesApiState \<Rightarrow> DisplayPreferencesApiState" where
  "SYNCING_STARTED st = st\<lparr>syncing := True\<rparr>"

definition SYNCING_ENDED :: "int \<Rightarrow> DisplayPreferencesApiState \<Rightarrow> DisplayPreferencesApiState" where
  "SYNCING_ENDED now st = st\<lparr>syncing := False, LastSync := now\<rparr>"

definition UPDATE_CLIENT_SETTINGS :: "int \<Rightarrow> DisplayPreferencesApiState \<Rightarrow> DisplayPreferencesApiState" where
  "UPDATE_CLIENT_SETTINGS now st = st\<lparr>LastSettingChange := now\<rparr>"

section \<open>The actions\<close>

text \<open>
  The world an action runs in: the state of this module, the heap with the object
  \<^verbatim>\<open>rootState.settings\<close> at address \<open>settings\<close>, the messages dispatched to the
  snackbar, the requests made to the server, and the last reading of the clock.
  \<^verbatim>\<open>Date.now()\<close> is a clock that does not go backwards: a reading adds a natural
  number of milliseconds to the previous one.
\<close>

datatype request =
    GetDisplayPreferences
  | UpdateDisplayPreferences obj obj

record world =
  tracker :: DisplayPreferencesApiState
  heap :: heap
  settings :: addr
  snackbar :: "(string \<times> string) list"
  requests :: "request list"
  clock :: int

text \<open>
  A response body is missing, or an object with its fields other than
  \<^verbatim>\<open>CustomPrefs\<close> and the content of \<^verbatim>\<open>CustomPrefs\<close> (\<open>None\<close> for \<^verbatim>\<open>null\<close>).
  A request is rejected (the promise throws) or answered with a status and a body.
\<close>

datatype body = NoBody | Body obj "obj option"

datatype response = Rejected | Response int body

text \<open>
  What an action finds around it: the authentication context, the engine, the object
  \<^verbatim>\<open>settingState()\<close> of the settings module (an object literal), the answers of the
  server to the two requests, and the time that passes before each reading of the clock.
\<close>

record env =
  loggedIn :: bool
  engine :: host
  settingState :: obj
  getDisplayPreferences :: response
  updateDisplayPreferences :: response
  elapsed_change :: nat
  elapsed_end :: nat

text \<open>The body of a response becomes a new object of the heap.\<close>

definition receive :: "heap \<Rightarrow> body \<Rightarrow> jsval \<times> heap" where
  "receive h b =
     (case b of
        NoBody \<Rightarrow> (JUndefined, h)
      | Body flds None \<Rightarrow>
          (let (a, h1) = alloc h (set_prop flds ''CustomPrefs'' JNull) in (JRef a, h1))
      | Body flds (Some prefs) \<Rightarrow>
          (let (p, h1) = alloc h prefs;
               (a, h2) = alloc h1 (set_prop flds ''CustomPrefs'' (JRef p))
           in (JRef a, h2)))"

definition commit :: "(DisplayPreferencesApiState \<Rightarrow> DisplayPreferencesApiState) \<Rightarrow> world \<Rightarrow> world" where
  "commit mutation w = w\<lparr>tracker := mutation (tracker w)\<rparr>"

definition Date_now :: "nat \<Rightarrow> world \<Rightarrow> int \<times> world" where
  "Date_now elapsed w = (let t = clock w + int elapsed in (t, w\<lparr>clock := t\<rparr>))"

definition pushSnackbarMessage :: "string \<Rightarrow> world \<Rightarrow> world" where
  "pushSnackbarMessage message w = w\<lparr>snackbar := snackbar w @ [(message, ''error'')]\<rparr>"

definition send :: "request \<Rightarrow> world \<Rightarrow> world" where
  "send r w = w\<lparr>requests := requests w @ [r]\<rparr>"

text \<open>
  \<^verbatim>\<open>try { ... } catch (error) { ... }\<close>: an exception leaves the world as the body had
  made it when it threw, and the handler goes on from there. The handlers of this
  module translate a message and dispatch it to the snackbar; the two collaborators
  are taken not to throw.
\<close>

definition try_catch ::
  "(world \<Rightarrow> (error \<times> world) + world) \<Rightarrow> (error \<Rightarrow> world \<Rightarrow> error + world) \<Rightarrow> world \<Rightarrow> error + world" where
  "try_catch block handler w =
     (case block w of Inr w' \<Rightarrow> Inr w' | Inl (e, w') \<Rightarrow> handler e w')"

definition status_message :: "string \<Rightarrow> int \<Rightarrow> string" where
  "status_message prefix status = prefix @ number_to_string (Fin status)"

subsection \<open>\<^verbatim>\<open>initState\<close>\<close>

text \<open>The loop that deletes from \<^verbatim>\<open>data.CustomPrefs\<close> the keys for which
  \<^verbatim>\<open>key in settingState()\<close> is false.\<close>

fun filter_loop :: "obj \<Rightarrow> addr \<Rightarrow> string list \<Rightarrow> heap \<Rightarrow> heap" where
  "filter_loop schema p [] h = h"
| "filter_loop schema p (key # keys) h =
     filter_loop schema p keys
       (if \<not> has_prop key schema then
          (case heap_get h p of Some ob \<Rightarrow> heap_set h p (delete_prop ob key) | None \<Rightarrow> h)
        else h)"

text \<open>
  Modelled from the spec: the mutation \<^verbatim>\<open>settings/INIT_STATE\<close> of the settings module,
  which is not part of this file. It is an initialize-state operation that takes a
  partial typed mapping and merges it into the current state, setting only the fields
  present in the mapping.
\<close>

definition INIT_STATE :: "obj \<Rightarrow> world \<Rightarrow> world" where
  "INIT_STATE payload w =
     (case heap_get (heap w) (settings w) of
        Some st \<Rightarrow> w\<lparr>heap := heap_set (heap w) (settings w) (Object_assign st payload)\<rparr>
      | None \<Rightarrow> w)"

text \<open>The payload \<^verbatim>\<open>data.CustomPrefs\<close> that \<^verbatim>\<open>initState\<close> commits, after decoding and
  filtering; \<open>None\<close> when \<^verbatim>\<open>data.CustomPrefs\<close> is falsy.\<close>

definition filtered_prefs :: "obj \<Rightarrow> heap \<Rightarrow> jsval \<Rightarrow> (heap \<times> obj) option" where
  "filtered_prefs schema h data =
     (case data of
        JRef a \<Rightarrow>
          (case heap_get h a of
             Some d \<Rightarrow>
               (case get_own d ''CustomPrefs'' of
                  Some (JRef p) \<Rightarrow>
                    (case heap_get h p of
                       Some prefs \<Rightarrow>
                         (let h' = filter_loop schema p (Object_keys prefs) h in
                          (case heap_get h' p of Some prefs' \<Rightarrow> Some (h', prefs') | None \<Rightarrow> None))
                     | None \<Rightarrow> None)
                | _ \<Rightarrow> None)
           | None \<Rightarrow> None)
      | _ \<Rightarrow> None)"

definition initState_try :: "env \<Rightarrow> world \<Rightarrow> (error \<times> world) + world" where
  "initState_try e w =
     (let w1 = send GetDisplayPreferences w in
      case getDisplayPreferences e of
        Rejected \<Rightarrow> Inl (NetworkError, w1)
      | Response status b \<Rightarrow>
          if status \<noteq> 200 then
            Inl (StatusError (status_message ''get display preferences status response = '' status), w1)
          else
            (let (data, h1) = receive (heap w1) b in
             case castResponse (engine e) (settingState e) h1 data of
               Inl err \<Rightarrow> Inl (err, w1\<lparr>heap := h1\<rparr>)
             | Inr (h2, data') \<Rightarrow>
                 (case filtered_prefs (settingState e) h2 data' of
                    Some (h3, payload) \<Rightarrow> Inr (INIT_STATE payload (w1\<lparr>heap := h3\<rparr>))
                  | None \<Rightarrow> Inr (w1\<lparr>heap := h2\<rparr>))))"

definition initState :: "env \<Rightarrow> world \<Rightarrow> error + world" where
  "initState e w =
     (if loggedIn e then
        (case try_catch (initState_try e)
                (\<lambda>err w'. Inr (pushSnackbarMessage ''failedRetrievingDisplayPreferences'' w'))
                (commit SYNCING_STARTED w) of
           Inl err \<Rightarrow> Inl err
         | Inr w2 \<Rightarrow>
             (let (now, w3) = Date_now (elapsed_end e) w2 in Inr (commit (SYNCING_ENDED now) w3)))
      else Inr w)"

subsection \<open>\<^verbatim>\<open>pushState\<close>\<close>

fun truthy :: "propval \<Rightarrow> bool" where
  "truthy NativeFunction = True"
| "truthy (Value v) = js_Boolean v"

definition heap_obj :: "heap \<Rightarrow> addr \<Rightarrow> obj" where
  "heap_obj h a = (case heap_get h a of Some ob \<Rightarrow> ob | None \<Rightarrow> [])"

text \<open>Encoding of one value: an array is \<^verbatim>\<open>`[${toStr(value)}]`\<close>, anything else
  \<^verbatim>\<open>toStr(value)\<close>.\<close>

definition encode_value :: "jsval \<Rightarrow> jsval" where
  "encode_value v =
     (if Array_isArray (Value v) then JStr (''['' @ toStr v @ '']'') else JStr (toStr v))"

fun encode_loop :: "addr \<Rightarrow> (string \<times> jsval) list \<Rightarrow> heap \<Rightarrow> heap" where
  "encode_loop c [] h = h"
| "encode_loop c ((key, val) # es) h = encode_loop c es (assign_prop h c key (encode_value val))"

text \<open>
  The block under \<^verbatim>\<open>try\<close>. \<^verbatim>\<open>displayPrefs.CustomPrefs = {}\<close> throws when the response
  has no body; \<^verbatim>\<open>settings\<close> is the object of the store itself, so
  \<^verbatim>\<open>delete settings.status\<close> changes the store; \<^verbatim>\<open>Object.assign\<close> copies its properties
  into the new object \<^verbatim>\<open>displayPrefs.CustomPrefs\<close>.
\<close>

definition pushState_try :: "env \<Rightarrow> world \<Rightarrow> (error \<times> world) + world" where
  "pushState_try e w =
     (let w1 = send GetDisplayPreferences w in
      case getDisplayPreferences e of
        Rejected \<Rightarrow> Inl (NetworkError, w1)
      | Response status b \<Rightarrow>
          if status \<noteq> 200 then
            Inl (StatusError (status_message ''get display preferences status response = '' status), w1)
          else
            (let (displayPrefs, h1) = receive (heap w1) b in
             case displayPrefs of
               JRef a \<Rightarrow>
                 (let (c, h2) = alloc h1 [];
                      h3 = assign_prop h2 a ''CustomPrefs'' (JRef c)
                  in case heap_get h3 (settings w1) of
                       None \<Rightarrow> Inl (TypeError, w1\<lparr>heap := h3\<rparr>)
                     | Some st \<Rightarrow>
                         (let h4 = (if truthy (get_prop st ''status'')
                                    then heap_set h3 (settings w1) (delete_prop st ''status'')
                                    else h3);
                              h5 = heap_set h4 c (Object_assign (heap_obj h4 c) (heap_obj h4 (settings w1)));
                              h6 = encode_loop c (Object_entries (heap_obj h5 c)) h5;
                              w2 = send (UpdateDisplayPreferences (heap_obj h6 a) (heap_obj h6 c))
                                     (w1\<lparr>heap := h6\<rparr>)
                          in case updateDisplayPreferences e of
                               Rejected \<Rightarrow> Inl (NetworkError, w2)
                             | Response status' b' \<Rightarrow>
                                 if status' \<noteq> 204 then
                                   Inl (StatusError
                                          (status_message ''set display preferences status response = '' status'), w2)
                                 else Inr w2))
             | _ \<Rightarrow> Inl (TypeError, w1\<lparr>heap := h1\<rparr>)))"

definition pushState :: "env \<Rightarrow> world \<Rightarrow> error + world" where
  "pushState e w =
     (if loggedIn e then
        (case try_catch (pushState_try e)
                (\<lambda>err w'. Inr (pushSnackbarMessage ''failedSettingDisplayPreferences'' w'))
                (commit SYNCING_STARTED w) of
           Inl err \<Rightarrow> Inl err
         | Inr w2 \<Rightarrow>
             (let (now, w3) = Date_now (elapsed_end e) w2 in Inr (commit (SYNCING_ENDED now) w3)))
      else Inr w)"

subsection \<open>\<^verbatim>\<open>updateSettings\<close> and \<^verbatim>\<open>resetState\<close>\<close>

definition updateSettings :: "env \<Rightarrow> world \<Rightarrow> error + world" where
  "updateSettings e w =
     (let (now, w1) = Date_now (elapsed_change e) w in
      pushState e (commit (UPDATE_CLIENT_SETTINGS now) w1))"

definition resetState :: "world \<Rightarrow> world" where
  "resetState w = commit RESET_STATE w"

subsection \<open>The worlds a run can reach\<close>

text \<open>
  A run starts with the default state of the module, at some time not before the epoch,
  and calls the actions one after the other, each to its end; in between, the rest of
  the application may change the heap.
\<close>

inductive reachable :: "world \<Rightarrow> bool" where
  start: "0 \<le> c \<Longrightarrow>
     reachable \<lparr>tracker = defaultState, heap = h, settings = s, snackbar = [], requests = [], clock = c\<rparr>"
| after_initState: "reachable w \<Longrightarrow> initState e w = Inr w' \<Longrightarrow> reachable w'"
| after_pushState: "reachable w \<Longrightarrow> pushState e w = Inr w' \<Longrightarrow> reachable w'"
| after_updateSettings: "reachable w \<Longrightarrow> updateSettings e w = Inr w' \<Longrightarrow> reachable w'"
| after_resetState: "reachable w \<Longrightarrow> reachable (resetState w)"
| elsewhere: "reachable w \<Longrightarrow> reachable (w\<lparr>heap := h'\<rparr>)"

subsection \<open>Outcomes of the first request\<close>

text \<open>The request \<^verbatim>\<open>getDisplayPreferences\<close> is answered with status 200 and a body: the
  only case in which \<^verbatim>\<open>pushState\<close> gets as far as the settings store.\<close>

fun answered_with_body :: "response \<Rightarrow> bool" where
  "answered_with_body (Response status (Body flds prefs)) = (status = 200)"
| "answered_with_body r = False"

section \<open>Properties\<close>

lemmas heap_defs = heap_get_def heap_set_def alloc_def assign_prop_def heap_obj_def

lemmas prop_defs = get_own_def get_prop_def has_prop_def delete_prop_def Object_keys_def
  Object_entries_def Object_assign_def prototype_methods_def

subsection \<open>The heap under the assignments\<close>

lemma heap_get_append: "q < length h \<Longrightarrow> heap_get (h @ xs) q = heap_get h q"
  by (simp add: heap_get_def nth_append)

lemma heap_get_heap_set:
  "heap_get (heap_set h a ob) q = (if q = a \<and> a < length h then Some ob else heap_get h q)"
  by (simp add: heap_get_def heap_set_def)

lemma length_heap_set: "length (heap_set h a ob) = length h"
  by (simp add: heap_set_def)

lemma length_assign_prop: "length (assign_prop h p k v) = length h"
  by (simp add: assign_prop_def length_heap_set split: option.splits)

lemma heap_get_assign_prop:
  "heap_get (assign_prop h p k v) q =
     (if q = p then map_option (\<lambda>ob. set_prop ob k v) (heap_get h p) else heap_get h q)"
  by (auto simp: assign_prop_def heap_get_def heap_set_def split: option.splits if_splits)

lemma map_of_set_prop: "map_of (set_prop ob k v) = (map_of ob)(k \<mapsto> v)"
  by (induction ob) auto

lemma keys_set_prop: "k \<in> fst ` set ob \<Longrightarrow> map fst (set_prop ob k v) = map fst ob"
  by (induction ob) force+

lemma delete_prop_other: "k \<noteq> k' \<Longrightarrow> get_own (delete_prop st k') k = get_own st k"
  by (induction st) (auto simp: get_own_def delete_prop_def)

lemma receive_fresh:
  assumes "heap_get h s = Some st"
  shows "\<exists>a h1. receive h (Body flds prefs) = (JRef a, h1) \<and> a \<noteq> s \<and> length h \<le> length h1 \<and>
     heap_get h1 s = Some st"
proof -
  from assms have "s < length h" by (auto simp: heap_get_def split: if_splits)
  with assms show ?thesis
    by (cases prefs) (auto simp: receive_def alloc_def heap_get_append)
qed

subsection \<open>Decoding and encoding\<close>

text \<open>
  Claim C1 (decoding the encoding of a preferences value gives the value back) does not
  hold of the code. The preferences \<^verbatim>\<open>{darkMode: false}\<close> are encoded as the string
  \<^verbatim>\<open>"false"\<close>; \<^verbatim>\<open>castResponse\<close> on the response \<^verbatim>\<open>{CustomPrefs: {darkMode: "false"}}\<close>,
  with \<^verbatim>\<open>darkMode\<close> a boolean of the schema, writes \<^verbatim>\<open>true\<close>, and the key filter
  keeps it: the round trip turns \<^verbatim>\<open>false\<close> into \<^verbatim>\<open>true\<close>.
\<close>

theorem round_trip_false_becomes_true:
  "encode_value (JBool False) = JStr ''false'' \<and>
   castResponse hst [(''darkMode'', JBool False)]
     [[(''darkMode'', encode_value (JBool False))], [(''CustomPrefs'', JRef 0)]] (JRef 1) =
     Inr ([[(''darkMode'', JBool True)], [(''CustomPrefs'', JRef 0)]], JRef 1) \<and>
   filtered_prefs [(''darkMode'', JBool False)]
     [[(''darkMode'', JBool True)], [(''CustomPrefs'', JRef 0)]] (JRef 1) =
     Some ([[(''darkMode'', JBool True)], [(''CustomPrefs'', JRef 0)]], [(''darkMode'', JBool True)])"
  by (simp add: encode_value_def toStr_def castResponse_def cast_value_def filtered_prefs_def
      heap_defs prop_defs)

text \<open>
  Claim C2 (the string \<^verbatim>\<open>"false"\<close> decodes to \<^verbatim>\<open>false\<close> for a boolean key) does not
  hold of the code: for every key that the schema holds with a boolean value, the
  value assigned for the remote string \<^verbatim>\<open>"false"\<close> is \<^verbatim>\<open>Boolean("false")\<close>, which is
  \<^verbatim>\<open>true\<close>.
\<close>

theorem decode_false_string_is_true:
  "get_own schema k = Some (JBool b) \<Longrightarrow>
   cast_value hst schema k (JStr ''false'') = Some (JBool True)"
  by (simp add: cast_value_def get_prop_def)

theorem decode_false_string_is_true_witness:
  "get_own [(''darkMode'', JBool False)] ''darkMode'' = Some (JBool False) \<and>
   cast_value \<lparr>Number_of_string = (\<lambda>s. NaN), JSON_parse = (\<lambda>s. None)\<rparr>
     [(''darkMode'', JBool False)] ''darkMode'' (JStr ''false'') = Some (JBool True)"
proof -
  have own: "get_own [(''darkMode'', JBool False)] ''darkMode'' = Some (JBool False)"
    by (simp add: get_own_def)
  from own decode_false_string_is_true [OF own] show ?thesis by simp
qed

text \<open>
  Claim C3 (the sequence \<^verbatim>\<open>[1, "a", true]\<close> is encoded as \<^verbatim>\<open>"[1,a,true]"\<close>, and that
  string decodes to the elements \<^verbatim>\<open>1\<close>, \<^verbatim>\<open>"a"\<close>, \<^verbatim>\<open>true\<close>). The encoding is as
  claimed. The decoding splits the string at the commas with the brackets still on it:
  the pieces are \<^verbatim>\<open>"[1"\<close>, \<^verbatim>\<open>"a"\<close> and \<^verbatim>\<open>"true]"\<close>, and the last element of the result
  is the string \<^verbatim>\<open>"true]"\<close>, not the boolean \<^verbatim>\<open>true\<close>, whatever \<^verbatim>\<open>JSON.parse\<close> does.
\<close>

theorem sequence_decoded_with_brackets:
  "encode_value (JArr [JNum (Fin 1), JStr ''a'', JBool True]) = JStr ''[1,a,true]'' \<and>
   castResponse hst [(''tags'', JArr [])]
     [[(''tags'', JStr ''[1,a,true]'')], [(''CustomPrefs'', JRef 0)]] (JRef 1) =
     Inr ([[(''tags'', JArr [destr hst ''[1'', JStr ''a'', JStr ''true]''])],
           [(''CustomPrefs'', JRef 0)]], JRef 1)"
  by (simp add: encode_value_def toStr_def digits.simps digit_char_def castResponse_def
      cast_value_def heap_defs prop_defs destr_def toLowerCase_def lower_char_def JsonSigRx_def
      short_numeral_def is_digit_def)

subsection \<open>The key filter\<close>

text \<open>
  Claim C4 (after decoding and filtering, the mapping merged into the settings store has
  only keys of the schema) does not hold of the code for a key that the schema object
  inherits. With the schema \<^verbatim>\<open>{darkMode: false}\<close> and the remote preferences
  \<^verbatim>\<open>{toString: "x", legacyFeature: "1"}\<close>, the filter deletes \<^verbatim>\<open>legacyFeature\<close> and
  keeps \<^verbatim>\<open>toString\<close>, because \<^verbatim>\<open>'toString' in settingState()\<close> is true. The
  payload that the action commits, the object at address 1 below, is
  \<^verbatim>\<open>{toString: "x"}\<close>, and the key reaches the settings store, at address 0.
\<close>

theorem inherited_key_passes_filter:
  "initState
     \<lparr>loggedIn = True, engine = hst, settingState = [(''darkMode'', JBool False)],
      getDisplayPreferences =
        Response 200 (Body [] (Some [(''toString'', JStr ''x''), (''legacyFeature'', JStr ''1'')])),
      updateDisplayPreferences = Rejected, elapsed_change = 0, elapsed_end = 5\<rparr>
     \<lparr>tracker = defaultState, heap = [[(''darkMode'', JBool False)]], settings = 0,
      snackbar = [], requests = [], clock = 10\<rparr> =
   Inr \<lparr>tracker = \<lparr>syncing = False, LastSync = 15, LastSettingChange = - 1\<rparr>,
        heap = [[(''darkMode'', JBool False), (''toString'', JStr ''x'')],
                [(''toString'', JStr ''x'')], [(''CustomPrefs'', JRef 1)]],
        settings = 0, snackbar = [], requests = [GetDisplayPreferences], clock = 15\<rparr>"
  by (simp add: initState_def try_catch_def initState_try_def commit_def SYNCING_STARTED_def
      SYNCING_ENDED_def send_def receive_def castResponse_def cast_value_def filtered_prefs_def
      INIT_STATE_def Date_now_def defaultState_def heap_defs prop_defs)

text \<open>What the filter does remove: a key of the payload is an own key of the schema
  object or the name of a property that it inherits.\<close>

lemma filter_loop_obj:
  "heap_get h p = Some ob \<Longrightarrow>
   heap_get (filter_loop schema p keys h) p =
     Some (filter (\<lambda>(k, v). k \<notin> set keys \<or> has_prop k schema) ob)"
proof (induction keys arbitrary: h ob)
  case Nil
  then show ?case by simp
next
  case (Cons key keys)
  show ?case
  proof (cases "has_prop key schema")
    case True
    have "filter (\<lambda>(k, v). k \<notin> set keys \<or> has_prop k schema) ob =
          filter (\<lambda>(k, v). k \<notin> set (key # keys) \<or> has_prop k schema) ob"
      using True by (intro filter_cong) auto
    with Cons.IH [OF Cons.prems] True show ?thesis by simp
  next
    case False
    from Cons.prems have "heap_get (heap_set h p (delete_prop ob key)) p = Some (delete_prop ob key)"
      by (auto simp: heap_get_def heap_set_def split: if_splits)
    from Cons.IH [OF this] have
      "heap_get (filter_loop schema p keys (heap_set h p (delete_prop ob key))) p =
         Some (filter (\<lambda>(k, v). k \<notin> set keys \<or> has_prop k schema) (delete_prop ob key))" .
    moreover have "filter (\<lambda>(k, v). k \<notin> set keys \<or> has_prop k schema) (delete_prop ob key) =
          filter (\<lambda>(k, v). k \<notin> set (key # keys) \<or> has_prop k schema) ob"
      using False unfolding delete_prop_def filter_filter
      by (intro filter_cong) auto
    ultimately show ?thesis using False Cons.prems by simp
  qed
qed

lemma filtered_prefs_keys:
  assumes "filtered_prefs schema h data = Some (h', payload)"
    and "k \<in> set (Object_keys payload)"
  shows "has_prop k schema"
proof -
  from assms(1) obtain p prefs where prefs: "heap_get h p = Some prefs"
    and h': "heap_get (filter_loop schema p (Object_keys prefs) h) p = Some payload"
    by (auto simp: filtered_prefs_def Let_def split: jsval.splits option.splits)
  from filter_loop_obj [OF prefs, of schema "Object_keys prefs"] h'
  have "payload = filter (\<lambda>(k, v). k \<notin> set (Object_keys prefs) \<or> has_prop k schema) prefs"
    by simp
  with assms(2) show ?thesis
    by (force simp: Object_keys_def)
qed

subsection \<open>The guard on authentication\<close>

text \<open>
  Claim C6: \<^verbatim>\<open>initState\<close> (pull) and \<^verbatim>\<open>pushState\<close> (push), called while the
  authentication context reports that nobody is logged in, return normally and leave
  the whole world as it was: the three fields of the module state, the heap with the
  settings store, the snackbar (no notification) and the requests (no network call).
\<close>

theorem unauthenticated_is_noop:
  "\<not> loggedIn e \<Longrightarrow> initState e w = Inr w \<and> pushState e w = Inr w"
  by (simp add: initState_def pushState_def)

theorem unauthenticated_is_noop_witness:
  "\<not> loggedIn \<lparr>loggedIn = False, engine = \<lparr>Number_of_string = (\<lambda>s. NaN), JSON_parse = (\<lambda>s. None)\<rparr>,
      settingState = [(''darkMode'', JBool False)],
      getDisplayPreferences = Response 200 (Body [] (Some [(''darkMode'', JStr ''true'')])),
      updateDisplayPreferences = Response 204 NoBody, elapsed_change = 3, elapsed_end = 4\<rparr> \<and>
   initState \<lparr>loggedIn = False, engine = \<lparr>Number_of_string = (\<lambda>s. NaN), JSON_parse = (\<lambda>s. None)\<rparr>,
      settingState = [(''darkMode'', JBool False)],
      getDisplayPreferences = Response 200 (Body [] (Some [(''darkMode'', JStr ''true'')])),
      updateDisplayPreferences = Response 204 NoBody, elapsed_change = 3, elapsed_end = 4\<rparr>
     \<lparr>tracker = \<lparr>syncing = False, LastSync = 7, LastSettingChange = 6\<rparr>,
      heap = [[(''darkMode'', JBool False)]], settings = 0, snackbar = [], requests = [],
      clock = 8\<rparr> =
   Inr \<lparr>tracker = \<lparr>syncing = False, LastSync = 7, LastSettingChange = 6\<rparr>,
      heap = [[(''darkMode'', JBool False)]], settings = 0, snackbar = [], requests = [],
      clock = 8\<rparr>"
  using unauthenticated_is_noop
    [of "\<lparr>loggedIn = False, engine = \<lparr>Number_of_string = (\<lambda>s. NaN), JSON_parse = (\<lambda>s. None)\<rparr>,
      settingState = [(''darkMode'', JBool False)],
      getDisplayPreferences = Response 200 (Body [] (Some [(''darkMode'', JStr ''true'')])),
      updateDisplayPreferences = Response 204 NoBody, elapsed_change = 3, elapsed_end = 4\<rparr>"
     "\<lparr>tracker = \<lparr>syncing = False, LastSync = 7, LastSettingChange = 6\<rparr>,
      heap = [[(''darkMode'', JBool False)]], settings = 0, snackbar = [], requests = [],
      clock = 8\<rparr>"]
  by simp

subsection \<open>\<^verbatim>\<open>resetState\<close>\<close>

text \<open>
  Claim C8 (\<^verbatim>\<open>resetState\<close> sets the module state back to its defaults and leaves the
  settings store alone) does not hold of the code. \<^verbatim>\<open>RESET_STATE\<close> assigns the
  enumerable properties of the function \<^verbatim>\<open>defaultState\<close>, which has none, so
  \<^verbatim>\<open>resetState\<close> changes nothing at all: a state with \<^verbatim>\<open>LastSync = 1000\<close> and
  \<^verbatim>\<open>LastSettingChange = 900\<close> stays as it is and is not the default state.
\<close>

theorem resetState_changes_nothing:
  "resetState w = w \<and>
   RESET_STATE \<lparr>syncing = False, LastSync = 1000, LastSettingChange = 900\<rparr> =
     \<lparr>syncing = False, LastSync = 1000, LastSettingChange = 900\<rparr> \<and>
   RESET_STATE \<lparr>syncing = False, LastSync = 1000, LastSettingChange = 900\<rparr> \<noteq> defaultState"
  by (simp add: resetState_def commit_def RESET_STATE_def assign_state_def
      function_own_enumerable_def defaultState_def)

subsection \<open>\<^verbatim>\<open>castResponse\<close> works in place\<close>

lemma cast_loop_length: "length (cast_loop hst schema p es h) = length h"
  by (induction es arbitrary: h) (auto simp: length_assign_prop split: option.splits)

lemma cast_loop_other: "q \<noteq> p \<Longrightarrow> heap_get (cast_loop hst schema p es h) q = heap_get h q"
  by (induction es arbitrary: h) (auto simp: heap_get_assign_prop split: option.splits)

lemma cast_loop_keys:
  "heap_get h p = Some ob \<Longrightarrow> fst ` set es \<subseteq> fst ` set ob \<Longrightarrow>
   \<exists>ob'. heap_get (cast_loop hst schema p es h) p = Some ob' \<and> map fst ob' = map fst ob"
proof (induction es arbitrary: h ob)
  case Nil
  then show ?case by simp
next
  case (Cons kv es)
  obtain k v where kv: "kv = (k, v)" by (cases kv)
  show ?case
  proof (cases "cast_value hst schema k v")
    case None
    with Cons kv show ?thesis by auto
  next
    case (Some v')
    from Cons.prems kv have k: "k \<in> fst ` set ob" by auto
    let ?ob1 = "set_prop ob k v'"
    have g: "heap_get (assign_prop h p k v') p = Some ?ob1"
      using Cons.prems(1) by (simp add: heap_get_assign_prop)
    have m: "map fst ?ob1 = map fst ob" using k by (rule keys_set_prop)
    then have "fst ` set ?ob1 = fst ` set ob" by (metis list.set_map)
    with Cons.prems kv have "fst ` set es \<subseteq> fst ` set ?ob1" by auto
    from Cons.IH [OF g this] m Some kv show ?thesis by auto
  qed
qed

lemma cast_loop_values:
  "heap_get h p = Some ob \<Longrightarrow> distinct (map fst es) \<Longrightarrow>
   \<exists>ob'. heap_get (cast_loop hst schema p es h) p = Some ob' \<and>
     map_of ob' k =
       (case map_of es k of
          None \<Rightarrow> map_of ob k
        | Some v \<Rightarrow> (case cast_value hst schema k v of None \<Rightarrow> map_of ob k | Some v' \<Rightarrow> Some v'))"
proof (induction es arbitrary: h ob)
  case Nil
  then show ?case by simp
next
  case (Cons kv es)
  obtain k0 v0 where kv: "kv = (k0, v0)" by (cases kv)
  from Cons.prems kv have d: "distinct (map fst es)" and n: "map_of es k0 = None"
    by (auto simp: map_of_eq_None_iff)
  show ?case
  proof (cases "cast_value hst schema k0 v0")
    case None
    from Cons.IH [OF Cons.prems(1) d] None kv n show ?thesis
      by (auto split: option.splits)
  next
    case (Some v')
    have g: "heap_get (assign_prop h p k0 v') p = Some (set_prop ob k0 v')"
      using Cons.prems(1) by (simp add: heap_get_assign_prop)
    from Cons.IH [OF g d] Some kv n show ?thesis
      by (auto simp: map_of_set_prop split: option.splits)
  qed
qed

text \<open>
  Claim C9 (\<^verbatim>\<open>castResponse\<close> returns a new object and does not mutate its input) does
  not hold of the code: \<^verbatim>\<open>result\<close> is the argument \<^verbatim>\<open>data\<close> under another type, and
  the assignments go to \<^verbatim>\<open>data.CustomPrefs\<close>. On the response
  \<^verbatim>\<open>{CustomPrefs: {darkMode: "true"}}\<close> the call returns the reference it was given,
  and the object \<^verbatim>\<open>CustomPrefs\<close> of the input holds the boolean \<^verbatim>\<open>true\<close> afterwards,
  where it held the string \<^verbatim>\<open>"true"\<close>.
\<close>

theorem castResponse_mutates_input:
  "castResponse \<lparr>Number_of_string = (\<lambda>s. NaN), JSON_parse = (\<lambda>s. None)\<rparr>
     [(''darkMode'', JBool False)]
     [[(''darkMode'', JStr ''true'')], [(''CustomPrefs'', JRef 0)]] (JRef 1) =
     Inr ([[(''darkMode'', JBool True)], [(''CustomPrefs'', JRef 0)]], JRef 1) \<and>
   heap_get [[(''darkMode'', JBool True)], [(''CustomPrefs'', JRef 0)]] 0 \<noteq>
     heap_get [[(''darkMode'', JStr ''true'')], [(''CustomPrefs'', JRef 0)]] 0"
  by (simp add: castResponse_def cast_value_def heap_defs prop_defs)

text \<open>
  Claim C9 as amended: when \<^verbatim>\<open>castResponse\<close> returns, it returns its argument itself,
  and it has decoded in place. The heap has the same objects; every object other than
  \<^verbatim>\<open>data.CustomPrefs\<close> is as before (the top-level fields of \<^verbatim>\<open>data\<close> among them);
  \<^verbatim>\<open>data.CustomPrefs\<close> has the same keys in the same order, and the value of each key
  is the decoded one, or the old one where no branch of the decoder assigns.
\<close>

theorem castResponse_in_place:
  assumes "castResponse hst schema h data = Inr (h', r)"
  shows "r = data \<and> length h' = length h \<and>
    (\<exists>a d p prefs prefs'.
       data = JRef a \<and> heap_get h a = Some d \<and> get_own d ''CustomPrefs'' = Some (JRef p) \<and>
       heap_get h p = Some prefs \<and> heap_get h' p = Some prefs' \<and>
       (\<forall>q. q \<noteq> p \<longrightarrow> heap_get h' q = heap_get h q) \<and>
       Object_keys prefs' = Object_keys prefs \<and>
       (distinct (Object_keys prefs) \<longrightarrow>
          (\<forall>k v. get_own prefs k = Some v \<longrightarrow>
             get_own prefs' k =
               Some (case cast_value hst schema k v of None \<Rightarrow> v | Some v' \<Rightarrow> v'))))"
proof -
  from assms obtain a d p prefs where
    data: "data = JRef a" and d: "heap_get h a = Some d"
    and c: "get_own d ''CustomPrefs'' = Some (JRef p)" and prefs: "heap_get h p = Some prefs"
    and h': "h' = cast_loop hst schema p prefs h" and r: "r = data"
    by (auto simp: castResponse_def Object_entries_def
        split: jsval.splits option.splits)
  from cast_loop_keys [OF prefs, of prefs hst schema] obtain prefs' where
    p': "heap_get h' p = Some prefs'" and keys: "map fst prefs' = map fst prefs"
    using h' by auto
  have vals: "get_own prefs' k = Some (case cast_value hst schema k v of None \<Rightarrow> v | Some v' \<Rightarrow> v')"
    if dist: "distinct (Object_keys prefs)" and own: "get_own prefs k = Some v" for k v
  proof -
    from cast_loop_values [OF prefs, of prefs hst schema k] dist p' h' own
    show ?thesis
      by (auto simp: Object_keys_def get_own_def split: option.splits)
  qed
  from data d c prefs p' keys vals r h' show ?thesis
    by (auto simp: cast_loop_length cast_loop_other Object_keys_def)
qed

theorem castResponse_in_place_witness:
  "castResponse \<lparr>Number_of_string = (\<lambda>s. NaN), JSON_parse = (\<lambda>s. None)\<rparr>
     [(''darkMode'', JBool False)]
     [[(''darkMode'', JStr ''true''), (''locale'', JStr ''fr'')], [(''Id'', JStr ''u''), (''CustomPrefs'', JRef 0)]]
     (JRef 1) =
     Inr ([[(''darkMode'', JBool True), (''locale'', JStr ''fr'')],
           [(''Id'', JStr ''u''), (''CustomPrefs'', JRef 0)]], JRef 1) \<and>
   heap_get [[(''darkMode'', JBool True), (''locale'', JStr ''fr'')],
             [(''Id'', JStr ''u''), (''CustomPrefs'', JRef 0)]] 1 =
     heap_get [[(''darkMode'', JStr ''true''), (''locale'', JStr ''fr'')],
               [(''Id'', JStr ''u''), (''CustomPrefs'', JRef 0)]] 1"
proof -
  have run: "castResponse \<lparr>Number_of_string = (\<lambda>s. NaN), JSON_parse = (\<lambda>s. None)\<rparr>
     [(''darkMode'', JBool False)]
     [[(''darkMode'', JStr ''true''), (''locale'', JStr ''fr'')], [(''Id'', JStr ''u''), (''CustomPrefs'', JRef 0)]]
     (JRef 1) =
     Inr ([[(''darkMode'', JBool True), (''locale'', JStr ''fr'')],
           [(''Id'', JStr ''u''), (''CustomPrefs'', JRef 0)]], JRef 1)"
    by (simp add: castResponse_def cast_value_def heap_defs prop_defs)
  from castResponse_in_place [OF run] have
    "\<forall>q. q \<noteq> 0 \<longrightarrow>
       heap_get [[(''darkMode'', JBool True), (''locale'', JStr ''fr'')],
                 [(''Id'', JStr ''u''), (''CustomPrefs'', JRef 0)]] q =
       heap_get [[(''darkMode'', JStr ''true''), (''locale'', JStr ''fr'')],
                 [(''Id'', JStr ''u''), (''CustomPrefs'', JRef 0)]] q"
    by (auto simp: heap_get_def get_own_def)
  then have "heap_get [[(''darkMode'', JBool True), (''locale'', JStr ''fr'')],
                 [(''Id'', JStr ''u''), (''CustomPrefs'', JRef 0)]] 1 =
       heap_get [[(''darkMode'', JStr ''true''), (''locale'', JStr ''fr'')],
                 [(''Id'', JStr ''u''), (''CustomPrefs'', JRef 0)]] 1"
    by simp
  with run show ?thesis by simp
qed

subsection \<open>\<^verbatim>\<open>pushState\<close> and the settings store\<close>

lemma encode_loop_length: "length (encode_loop c es h) = length h"
  by (induction es arbitrary: h) (auto simp: length_assign_prop)

lemma encode_loop_other: "q \<noteq> c \<Longrightarrow> heap_get (encode_loop c es h) q = heap_get h q"
  by (induction es arbitrary: h) (auto simp: heap_get_assign_prop)

lemma pushState_try_settings:
  assumes "heap_get (heap w) (settings w) = Some st"
    and "pushState_try e w = Inr w' \<or> pushState_try e w = Inl (err, w')"
  shows "settings w' = settings w \<and>
     heap_get (heap w') (settings w) =
       Some (if answered_with_body (getDisplayPreferences e) \<and> truthy (get_prop st ''status'')
             then delete_prop st ''status'' else st)"
proof (cases "getDisplayPreferences e")
  case Rejected
  with assms show ?thesis by (auto simp: pushState_try_def send_def)
next
  case (Response status b)
  show ?thesis
  proof (cases "status = 200")
    case False
    with Response assms show ?thesis
      by (cases b) (auto simp: pushState_try_def send_def)
  next
    case True
    from assms(1) have s: "settings w < length (heap w)"
      by (auto simp: heap_get_def split: if_splits)
    show ?thesis
    proof (cases b)
      case NoBody
      with True Response assms show ?thesis
        by (auto simp: pushState_try_def send_def receive_def)
    next
      case (Body flds prefs)
      from receive_fresh [OF assms(1), of flds prefs] obtain a h1 where
        r: "receive (heap w) (Body flds prefs) = (JRef a, h1)" and a: "a \<noteq> settings w"
        and l: "length (heap w) \<le> length h1" and g: "heap_get h1 (settings w) = Some st"
        by blast
      from s l have s1: "settings w < length h1" by simp
      with True Response Body assms(2) r a g show ?thesis
        by (cases "updateDisplayPreferences e")
          (auto simp: pushState_try_def send_def Let_def alloc_def
            heap_get_append heap_get_heap_set length_heap_set heap_get_assign_prop
            length_assign_prop encode_loop_other encode_loop_length
            split: if_splits)
    qed
  qed
qed

text \<open>
  Claim C10 (an authenticated \<^verbatim>\<open>pushState\<close> deletes the field \<^verbatim>\<open>status\<close> from the
  shared settings object whenever the store contains it) does not hold of the code as
  stated: the deletion stands after the check of the first response. When the server
  answers the first request with status 500, the field is still in the store after the
  call.
\<close>

theorem status_kept_when_fetch_fails:
  "pushState
     \<lparr>loggedIn = True, engine = \<lparr>Number_of_string = (\<lambda>s. NaN), JSON_parse = (\<lambda>s. None)\<rparr>,
      settingState = [(''darkMode'', JBool False)],
      getDisplayPreferences = Response 500 NoBody,
      updateDisplayPreferences = Response 204 NoBody, elapsed_change = 0, elapsed_end = 5\<rparr>
     \<lparr>tracker = defaultState,
      heap = [[(''status'', JStr ''success''), (''darkMode'', JBool False)]], settings = 0,
      snackbar = [], requests = [], clock = 10\<rparr> =
   Inr \<lparr>tracker = \<lparr>syncing = False, LastSync = 15, LastSettingChange = - 1\<rparr>,
        heap = [[(''status'', JStr ''success''), (''darkMode'', JBool False)]], settings = 0,
        snackbar = [(''failedSettingDisplayPreferences'', ''error'')],
        requests = [GetDisplayPreferences], clock = 15\<rparr>"
  by (simp add: pushState_def try_catch_def pushState_try_def commit_def SYNCING_STARTED_def
      SYNCING_ENDED_def send_def Date_now_def defaultState_def pushSnackbarMessage_def)

text \<open>
  Claim C10 as amended: \<^verbatim>\<open>pushState\<close> returns normally, and the settings object of
  the store, at the same address, has lost its field \<^verbatim>\<open>status\<close> exactly when the
  caller is logged in, the first request was answered with status 200 and a body, and
  the value of \<^verbatim>\<open>status\<close> is truthy; otherwise the object is as it was. In every case
  each field other than \<^verbatim>\<open>status\<close> has the value it had. The change is made on the
  object of the store itself, whatever the second request answers.
\<close>

theorem push_strips_status:
  assumes "heap_get (heap w) (settings w) = Some st"
  shows "\<exists>w' st'. pushState e w = Inr w' \<and> settings w' = settings w \<and>
     heap_get (heap w') (settings w) = Some st' \<and>
     st' = (if loggedIn e \<and> answered_with_body (getDisplayPreferences e) \<and>
               truthy (get_prop st ''status'')
            then delete_prop st ''status'' else st) \<and>
     (\<forall>k. k \<noteq> ''status'' \<longrightarrow> get_own st' k = get_own st k)"
proof (cases "loggedIn e")
  case False
  with assms show ?thesis by (simp add: pushState_def)
next
  case True
  let ?w1 = "commit SYNCING_STARTED w"
  let ?st' = "if answered_with_body (getDisplayPreferences e) \<and> truthy (get_prop st ''status'')
              then delete_prop st ''status'' else st"
  from assms have a1: "heap_get (heap ?w1) (settings ?w1) = Some st"
    by (simp add: commit_def)
  have others: "\<forall>k. k \<noteq> ''status'' \<longrightarrow> get_own ?st' k = get_own st k"
    by (simp add: delete_prop_other)
  show ?thesis
  proof (cases "pushState_try e ?w1")
    case (Inr w2)
    with pushState_try_settings [OF a1, of e w2] have
      "settings w2 = settings w" "heap_get (heap w2) (settings w) = Some ?st'"
      by (simp_all add: commit_def)
    with True Inr others show ?thesis
      by (simp add: pushState_def try_catch_def Date_now_def Let_def commit_def)
  next
    case (Inl p)
    obtain err w2 where p: "p = (err, w2)" by (cases p)
    with Inl pushState_try_settings [OF a1, of e w2 err] have
      "settings w2 = settings w" "heap_get (heap w2) (settings w) = Some ?st'"
      by (simp_all add: commit_def)
    with True Inl p others show ?thesis
      by (simp add: pushState_def try_catch_def Date_now_def Let_def commit_def
          pushSnackbarMessage_def)
  qed
qed

theorem push_strips_status_witness:
  "heap_get [[(''status'', JStr ''success''), (''darkMode'', JBool False)]] 0 =
     Some [(''status'', JStr ''success''), (''darkMode'', JBool False)] \<and>
   (\<exists>w'. pushState
      \<lparr>loggedIn = True, engine = \<lparr>Number_of_string = (\<lambda>s. NaN), JSON_parse = (\<lambda>s. None)\<rparr>,
       settingState = [(''darkMode'', JBool False)],
       getDisplayPreferences = Response 200 (Body [] (Some [])),
       updateDisplayPreferences = Response 500 NoBody, elapsed_change = 0, elapsed_end = 5\<rparr>
      \<lparr>tracker = defaultState,
       heap = [[(''status'', JStr ''success''), (''darkMode'', JBool False)]], settings = 0,
       snackbar = [], requests = [], clock = 10\<rparr> = Inr w' \<and>
      settings w' = 0 \<and> heap_get (heap w') 0 = Some [(''darkMode'', JBool False)])"
proof -
  have own: "heap_get
      (heap \<lparr>tracker = defaultState,
         heap = [[(''status'', JStr ''success''), (''darkMode'', JBool False)]], settings = 0,
         snackbar = [], requests = [], clock = 10\<rparr>)
      (settings \<lparr>tracker = defaultState,
         heap = [[(''status'', JStr ''success''), (''darkMode'', JBool False)]], settings = 0,
         snackbar = [], requests = [], clock = 10\<rparr>) =
     Some [(''status'', JStr ''success''), (''darkMode'', JBool False)]"
    by (simp add: heap_get_def)
  from push_strips_status [OF own,
      of "\<lparr>loggedIn = True, engine = \<lparr>Number_of_string = (\<lambda>s. NaN), JSON_parse = (\<lambda>s. None)\<rparr>,
       settingState = [(''darkMode'', JBool False)],
       getDisplayPreferences = Response 200 (Body [] (Some [])),
       updateDisplayPreferences = Response 500 NoBody, elapsed_change = 0, elapsed_end = 5\<rparr>"]
  show ?thesis
    by (simp add: heap_get_def get_prop_def get_own_def delete_prop_def)
qed

subsection \<open>The sync flag and the timestamps\<close>

lemma INIT_STATE_frame:
  "tracker (INIT_STATE payload w) = tracker w \<and> clock (INIT_STATE payload w) = clock w"
  by (simp add: INIT_STATE_def split: option.splits)

lemma initState_try_frame:
  "(initState_try e w = Inr w' \<or> initState_try e w = Inl (err, w')) \<Longrightarrow>
   tracker w' = tracker w \<and> clock w' = clock w"
  by (auto simp: initState_try_def send_def Let_def INIT_STATE_frame
      split: response.splits if_splits prod.splits sum.splits option.splits)

lemma pushState_try_frame:
  "(pushState_try e w = Inr w' \<or> pushState_try e w = Inl (err, w')) \<Longrightarrow>
   tracker w' = tracker w \<and> clock w' = clock w"
  by (auto simp: pushState_try_def send_def Let_def
      split: response.splits if_splits prod.splits jsval.splits option.splits)

text \<open>Both actions return normally; under the guard they end with \<^verbatim>\<open>SYNCING_ENDED\<close>
  at the next reading of the clock, whatever happened under \<^verbatim>\<open>try\<close>.\<close>

lemma initState_returns:
  "\<exists>w'. initState e w = Inr w' \<and>
     tracker w' = (if loggedIn e
                   then (tracker w)\<lparr>syncing := False, LastSync := clock w + int (elapsed_end e)\<rparr>
                   else tracker w) \<and>
     clock w' = (if loggedIn e then clock w + int (elapsed_end e) else clock w)"
proof (cases "loggedIn e")
  case False
  then show ?thesis by (simp add: initState_def)
next
  case True
  let ?w1 = "commit SYNCING_STARTED w"
  show ?thesis
  proof (cases "initState_try e ?w1")
    case (Inr w2)
    with initState_try_frame [of e ?w1 w2] have "tracker w2 = tracker ?w1" "clock w2 = clock ?w1"
      by simp_all
    with True Inr show ?thesis
      by (simp add: Let_def initState_def try_catch_def Date_now_def commit_def
          SYNCING_STARTED_def SYNCING_ENDED_def)
  next
    case (Inl p)
    obtain err w2 where p: "p = (err, w2)" by (cases p)
    with Inl initState_try_frame [of e ?w1 w2 err] have
      "tracker w2 = tracker ?w1" "clock w2 = clock ?w1"
      by simp_all
    with True Inl p show ?thesis
      by (simp add: Let_def initState_def try_catch_def Date_now_def commit_def
          SYNCING_STARTED_def SYNCING_ENDED_def pushSnackbarMessage_def)
  qed
qed

lemma pushState_returns:
  "\<exists>w'. pushState e w = Inr w' \<and>
     tracker w' = (if loggedIn e
                   then (tracker w)\<lparr>syncing := False, LastSync := clock w + int (elapsed_end e)\<rparr>
                   else tracker w) \<and>
     clock w' = (if loggedIn e then clock w + int (elapsed_end e) else clock w)"
proof (cases "loggedIn e")
  case False
  then show ?thesis by (simp add: pushState_def)
next
  case True
  let ?w1 = "commit SYNCING_STARTED w"
  show ?thesis
  proof (cases "pushState_try e ?w1")
    case (Inr w2)
    with pushState_try_frame [of e ?w1 w2] have "tracker w2 = tracker ?w1" "clock w2 = clock ?w1"
      by simp_all
    with True Inr show ?thesis
      by (simp add: Let_def pushState_def try_catch_def Date_now_def commit_def
          SYNCING_STARTED_def SYNCING_ENDED_def)
  next
    case (Inl p)
    obtain err w2 where p: "p = (err, w2)" by (cases p)
    with Inl pushState_try_frame [of e ?w1 w2 err] have
      "tracker w2 = tracker ?w1" "clock w2 = clock ?w1"
      by simp_all
    with True Inl p show ?thesis
      by (simp add: Let_def pushState_def try_catch_def Date_now_def commit_def
          SYNCING_STARTED_def SYNCING_ENDED_def pushSnackbarMessage_def)
  qed
qed

lemma updateSettings_unfold:
  "updateSettings e w =
     pushState e (commit (UPDATE_CLIENT_SETTINGS (clock w + int (elapsed_change e)))
                    (w\<lparr>clock := clock w + int (elapsed_change e)\<rparr>))"
  by (simp add: updateSettings_def Date_now_def Let_def)

lemma updateSettings_returns:
  "\<exists>w'. updateSettings e w = Inr w' \<and>
     LastSettingChange (tracker w') = clock w + int (elapsed_change e) \<and>
     syncing (tracker w') = (if loggedIn e then False else syncing (tracker w)) \<and>
     clock w + int (elapsed_change e) \<le> clock w'"
proof -
  let ?w1 = "commit (UPDATE_CLIENT_SETTINGS (clock w + int (elapsed_change e)))
               (w\<lparr>clock := clock w + int (elapsed_change e)\<rparr>)"
  from pushState_returns [of e ?w1] updateSettings_unfold [of e w] show ?thesis
    by (auto simp: commit_def UPDATE_CLIENT_SETTINGS_def)
qed

lemma RESET_STATE_id: "RESET_STATE st = st"
  by (simp add: RESET_STATE_def assign_state_def function_own_enumerable_def)

lemma reachable_idle: "reachable w \<Longrightarrow> \<not> syncing (tracker w)"
proof (induction rule: reachable.induct)
  case (start c h s)
  then show ?case by (simp add: defaultState_def)
next
  case (after_initState w e w')
  with initState_returns [of e w] show ?case by (auto split: if_splits)
next
  case (after_pushState w e w')
  with pushState_returns [of e w] show ?case by (auto split: if_splits)
next
  case (after_updateSettings w e w')
  with updateSettings_returns [of e w] show ?case by (auto split: if_splits)
next
  case (after_resetState w)
  then show ?case by (simp add: resetState_def commit_def RESET_STATE_id)
next
  case (elsewhere w h')
  then show ?case by simp
qed

lemma reachable_clock: "reachable w \<Longrightarrow> LastSettingChange (tracker w) \<le> clock w"
proof (induction rule: reachable.induct)
  case (start c h s)
  then show ?case by (simp add: defaultState_def)
next
  case (after_initState w e w')
  with initState_returns [of e w] show ?case by (auto split: if_splits)
next
  case (after_pushState w e w')
  with pushState_returns [of e w] show ?case by (auto split: if_splits)
next
  case (after_updateSettings w e w')
  with updateSettings_returns [of e w] show ?case by (auto split: if_splits)
next
  case (after_resetState w)
  then show ?case by (simp add: resetState_def commit_def RESET_STATE_id)
next
  case (elsewhere w h')
  then show ?case by simp
qed

text \<open>
  Claim C5: after every call of \<^verbatim>\<open>initState\<close> (pull) or \<^verbatim>\<open>pushState\<close> (push), the
  flag \<^verbatim>\<open>syncing\<close> is false and the call has returned normally, with no exception
  reaching the caller, whatever the server answered (a rejected request, a status other
  than 200 or 204, a response that cannot be decoded). This holds of every call made
  while logged in, from any world, and of every call made in a world that a run of the
  actions reaches.
\<close>

theorem sync_flag_released:
  "loggedIn e \<or> reachable w \<Longrightarrow>
   (\<exists>w'. initState e w = Inr w' \<and> \<not> syncing (tracker w')) \<and>
   (\<exists>w'. pushState e w = Inr w' \<and> \<not> syncing (tracker w'))"
proof -
  assume a: "loggedIn e \<or> reachable w"
  have idle: "loggedIn e \<or> \<not> syncing (tracker w)"
    using a reachable_idle by blast
  from idle initState_returns [of e w]
  have "\<exists>w'. initState e w = Inr w' \<and> \<not> syncing (tracker w')"
    by (auto split: if_splits)
  moreover from idle pushState_returns [of e w]
  have "\<exists>w'. pushState e w = Inr w' \<and> \<not> syncing (tracker w')"
    by (auto split: if_splits)
  ultimately show ?thesis by simp
qed

theorem sync_flag_released_witness:
  "reachable \<lparr>tracker = defaultState, heap = [[(''darkMode'', JBool False)]], settings = 0,
      snackbar = [], requests = [], clock = 10\<rparr> \<and>
   (\<exists>w'. initState
      \<lparr>loggedIn = True, engine = \<lparr>Number_of_string = (\<lambda>s. NaN), JSON_parse = (\<lambda>s. None)\<rparr>,
       settingState = [(''darkMode'', JBool False)],
       getDisplayPreferences = Response 500 NoBody,
       updateDisplayPreferences = Rejected, elapsed_change = 0, elapsed_end = 5\<rparr>
      \<lparr>tracker = defaultState, heap = [[(''darkMode'', JBool False)]], settings = 0,
       snackbar = [], requests = [], clock = 10\<rparr> = Inr w' \<and> \<not> syncing (tracker w')) \<and>
   (\<exists>w'. pushState
      \<lparr>loggedIn = True, engine = \<lparr>Number_of_string = (\<lambda>s. NaN), JSON_parse = (\<lambda>s. None)\<rparr>,
       settingState = [(''darkMode'', JBool False)],
       getDisplayPreferences = Response 500 NoBody,
       updateDisplayPreferences = Rejected, elapsed_change = 0, elapsed_end = 5\<rparr>
      \<lparr>tracker = defaultState, heap = [[(''darkMode'', JBool False)]], settings = 0,
       snackbar = [], requests = [], clock = 10\<rparr> = Inr w' \<and> \<not> syncing (tracker w'))"
proof -
  have r: "reachable \<lparr>tracker = defaultState, heap = [[(''darkMode'', JBool False)]],
      settings = 0, snackbar = [], requests = [], clock = 10\<rparr>"
    by (rule reachable.start) simp
  from r sync_flag_released [of _ "\<lparr>tracker = defaultState, heap = [[(''darkMode'', JBool False)]],
      settings = 0, snackbar = [], requests = [], clock = 10\<rparr>", OF disjI2, OF r]
  show ?thesis by blast
qed

text \<open>
  Claim C7: \<^verbatim>\<open>updateSettings\<close> sets \<^verbatim>\<open>LastSettingChange\<close> to the reading of the clock
  before it dispatches \<^verbatim>\<open>pushState\<close>: the push runs in a world \<open>w1\<close> that has the
  new timestamp already. The push returns normally and leaves the timestamp alone,
  whether it succeeded or failed, and the timestamp after the call is not smaller than
  the one before it.
\<close>

theorem local_change_timestamp:
  "reachable w \<Longrightarrow>
   \<exists>w1 w'. LastSettingChange (tracker w1) = clock w + int (elapsed_change e) \<and>
     updateSettings e w = pushState e w1 \<and> pushState e w1 = Inr w' \<and>
     LastSettingChange (tracker w') = LastSettingChange (tracker w1) \<and>
     LastSettingChange (tracker w) \<le> LastSettingChange (tracker w')"
proof -
  assume r: "reachable w"
  let ?w1 = "commit (UPDATE_CLIENT_SETTINGS (clock w + int (elapsed_change e)))
               (w\<lparr>clock := clock w + int (elapsed_change e)\<rparr>)"
  have t: "LastSettingChange (tracker ?w1) = clock w + int (elapsed_change e)"
    by (simp add: commit_def UPDATE_CLIENT_SETTINGS_def)
  from updateSettings_returns [of e w] updateSettings_unfold [of e w] obtain w' where
    w': "pushState e ?w1 = Inr w'"
      "LastSettingChange (tracker w') = clock w + int (elapsed_change e)"
    by auto
  from reachable_clock [OF r] have
    "LastSettingChange (tracker w) \<le> clock w + int (elapsed_change e)"
    by simp
  with updateSettings_unfold [of e w] t w' show ?thesis by auto
qed

theorem local_change_timestamp_witness:
  "reachable \<lparr>tracker = defaultState, heap = [[(''darkMode'', JBool False)]], settings = 0,
      snackbar = [], requests = [], clock = 10\<rparr> \<and>
   (\<exists>w'. updateSettings
      \<lparr>loggedIn = True, engine = \<lparr>Number_of_string = (\<lambda>s. NaN), JSON_parse = (\<lambda>s. None)\<rparr>,
       settingState = [(''darkMode'', JBool False)],
       getDisplayPreferences = Response 500 NoBody,
       updateDisplayPreferences = Rejected, elapsed_change = 3, elapsed_end = 5\<rparr>
      \<lparr>tracker = defaultState, heap = [[(''darkMode'', JBool False)]], settings = 0,
       snackbar = [], requests = [], clock = 10\<rparr> = Inr w' \<and>
      LastSettingChange (tracker w') = 13)"
proof -
  have r: "reachable \<lparr>tracker = defaultState, heap = [[(''darkMode'', JBool False)]],
      settings = 0, snackbar = [], requests = [], clock = 10\<rparr>"
    by (rule reachable.start) simp
  from local_change_timestamp [OF r,
      of "\<lparr>loggedIn = True, engine = \<lparr>Number_of_string = (\<lambda>s. NaN), JSON_parse = (\<lambda>s. None)\<rparr>,
       settingState = [(''darkMode'', JBool False)],
       getDisplayPreferences = Response 500 NoBody,
       updateDisplayPreferences = Rejected, elapsed_change = 3, elapsed_end = 5\<rparr>"]
  have "\<exists>w'. updateSettings
      \<lparr>loggedIn = True, engine = \<lparr>Number_of_string = (\<lambda>s. NaN), JSON_parse = (\<lambda>s. None)\<rparr>,
       settingState = [(''darkMode'', JBool False)],
       getDisplayPreferences = Response 500 NoBody,
       updateDisplayPreferences = Rejected, elapsed_change = 3, elapsed_end = 5\<rparr>
      \<lparr>tracker = defaultState, heap = [[(''darkMode'', JBool False)]], settings = 0,
       snackbar = [], requests = [], clock = 10\<rparr> = Inr w' \<and>
      LastSettingChange (tracker w') = 13"
    by auto
  with r show ?thesis by simp
qed

end
